theory Spec2Isabelle
  imports Complex_Main
begin

section \<open>Data model of the scheduler (scheduler.h, sky_utils.h)\<close>

text \<open>
  The C type \<open>double\<close> is modelled by \<open>real\<close>: sums, products and quotients are the
  exact ones, and there is neither rounding nor a NaN or an infinity. A quotient by zero,
  which in C gives an infinity or a NaN, is therefore an explicit error of the model.
  The C type \<open>int\<close> is modelled by \<open>int\<close>; the counters of the scheduler stay far from
  the 32-bit limits (at most \<open>MAX_FIELDS\<close> fields, at most \<open>MAX_OBS_PER_FIELD\<close> visits).
\<close>

type_synonym double = real

subsection \<open>Constants of scheduler.h\<close>

definition MIN_INTERVAL :: double where "MIN_INTERVAL = 0.0"
definition STARTUP_TIME :: double where "STARTUP_TIME = 0.0"
definition MIN_EXECUTION_TIME :: double where "MIN_EXECUTION_TIME = 0.029"
definition USE_12DEG_START :: int where "USE_12DEG_START = 1"
definition RA_STEP0 :: double where "RA_STEP0 = 0.05"
definition DEG_TO_RAD :: double where "DEG_TO_RAD = 3.14159 / 180.0"

definition TOO_LATE_STATUS :: int where "TOO_LATE_STATUS = -1"
definition NOT_DOABLE_STATUS :: int where "NOT_DOABLE_STATUS = 0"
definition READY_STATUS :: int where "READY_STATUS = 1"
definition DO_NOW_STATUS :: int where "DO_NOW_STATUS = 2"

definition NO_SURVEY_CODE :: int where "NO_SURVEY_CODE = 0"
definition TNO_SURVEY_CODE :: int where "TNO_SURVEY_CODE = 1"
definition SNE_SURVEY_CODE :: int where "SNE_SURVEY_CODE = 2"
definition MUSTDO_SURVEY_CODE :: int where "MUSTDO_SURVEY_CODE = 3"
definition LIGO_SURVEY_CODE :: int where "LIGO_SURVEY_CODE = 4"

definition BAD_CODE :: int where "BAD_CODE = -1"
definition DARK_CODE :: int where "DARK_CODE = 0"
definition SKY_CODE :: int where "SKY_CODE = 1"
definition FOCUS_CODE :: int where "FOCUS_CODE = 2"
definition OFFSET_CODE :: int where "OFFSET_CODE = 3"
definition EVENING_FLAT_CODE :: int where "EVENING_FLAT_CODE = 4"
definition MORNING_FLAT_CODE :: int where "MORNING_FLAT_CODE = 5"
definition DOME_FLAT_CODE :: int where "DOME_FLAT_CODE = 6"
definition LIGO_CODE :: int where "LIGO_CODE = 7"

subsection \<open>The field record\<close>

datatype Selection_Code =
    NOT_SELECTED | FIRST_DO_NOW_FLAT | FIRST_DO_NOW_DARK | FIRST_DO_NOW | FIRST_READY_PAIR
  | FIRST_LATE_PAIR | FIRST_NOT_READY_LATE_PAIR | FIRST_NOT_READY_NOT_LATE_PAIR
  | LEAST_TIME_LATE_MUST_DO | LEAST_TIME_READY_MUST_DO | LEAST_TIME_READY
  | MOST_TIME_READY_LATE

text \<open>
  The members of the C struct \<open>Field\<close> that the selector, the status update and the
  bad-readout handling read or write. The identity members (\<open>field_number\<close>,
  \<open>line_number\<close>, \<open>script_line\<close>), the derived coordinates, \<open>expt\<close>, \<open>ut_rise\<close>,
  \<open>ut_set\<close> and the per-visit history arrays are touched by none of the functions below.
\<close>

record Field =
  status :: int
  doable :: int
  selection_code :: Selection_Code
  ra :: double
  dec :: double
  shutter :: int
  interval :: double
  n_required :: int
  survey_code :: int
  jd_rise :: double
  jd_set :: double
  jd_next :: double
  n_done :: int
  time_up :: double
  time_required :: double
  time_left :: double

section \<open>Status update (scheduler.c, update\_field\_status)\<close>

text \<open>
  The C function writes through the pointer \<open>f\<close> and returns the new status; the model
  returns the status together with the updated field.
\<close>

definition update_field_status :: "Field \<Rightarrow> double \<Rightarrow> int \<Rightarrow> int \<times> Field" where
  "update_field_status f jd bad_weather =
     (if doable f = 0 then
        (NOT_DOABLE_STATUS, f\<lparr>status := NOT_DOABLE_STATUS\<rparr>)
      else if n_done f = n_required f then
        (NOT_DOABLE_STATUS, f\<lparr>doable := 0, status := NOT_DOABLE_STATUS\<rparr>)
      else if jd < jd_rise f then
        (NOT_DOABLE_STATUS, f\<lparr>status := NOT_DOABLE_STATUS\<rparr>)
      else if jd > jd_set f then
        (NOT_DOABLE_STATUS, f\<lparr>doable := 0, status := NOT_DOABLE_STATUS\<rparr>)
      else if jd_next f - jd > MIN_EXECUTION_TIME / 24.0 then
        (NOT_DOABLE_STATUS, f\<lparr>status := NOT_DOABLE_STATUS\<rparr>)
      else if shutter f = DARK_CODE \<or> shutter f = DOME_FLAT_CODE then
        (DO_NOW_STATUS, f\<lparr>status := DO_NOW_STATUS\<rparr>)
      else if shutter f = EVENING_FLAT_CODE \<or> shutter f = MORNING_FLAT_CODE \<or>
              shutter f = FOCUS_CODE \<or> shutter f = OFFSET_CODE then
        (if bad_weather = 0 then (DO_NOW_STATUS, f\<lparr>status := DO_NOW_STATUS\<rparr>)
         else (NOT_DOABLE_STATUS, f\<lparr>status := NOT_DOABLE_STATUS\<rparr>))
      else
        (let f1 = f\<lparr>time_required := real_of_int (n_required f - n_done f) * interval f\<rparr>;
             f2 = f1\<lparr>time_up := (jd_set f1 - jd) * 24.0\<rparr>;
             f3 = f2\<lparr>time_left := time_up f2 - time_required f2\<rparr>
         in if time_left f3 < 0 then (TOO_LATE_STATUS, f3\<lparr>status := TOO_LATE_STATUS\<rparr>)
            else (READY_STATUS, f3\<lparr>status := READY_STATUS\<rparr>)))"

section \<open>Interval shortening and pairing (scheduler.c)\<close>

text \<open>
  What the model cannot follow is an error value: an access to the field array outside its
  capacity (undefined behaviour in C), and a double that is not a real number (a quotient
  by zero).
\<close>

datatype error = OutOfBounds int | NotFinite

text \<open>
  \<open>shorten_interval\<close>: the divisor \<open>n_required - n_done\<close> is an \<open>int\<close> converted to
  \<open>double\<close>; the comparison with \<open>MIN_INTERVAL\<close> is strict.
\<close>

definition shorten_interval :: "Field \<Rightarrow> error + Field" where
  "shorten_interval f =
     (if n_required f - n_done f = 0 then Inl NotFinite
      else
        (let new_time_required = time_up f;
             new_interval = new_time_required / real_of_int (n_required f - n_done f)
         in if new_interval > MIN_INTERVAL then
              Inr (f\<lparr>time_required := new_time_required, interval := new_interval,
                     time_left := 0\<rparr>)
            else Inr (f\<lparr>doable := 0\<rparr>)))"

definition clock_difference :: "double \<Rightarrow> double \<Rightarrow> double" where
  "clock_difference h1 h2 =
     (let dt = h2 - h1;
          dt = (if dt > 12.0 then dt - 24.0 else dt);
          dt = (if dt < -12.0 then dt + 24.0 else dt)
      in dt)"

definition paired_fields :: "Field \<Rightarrow> Field \<Rightarrow> error + int" where
  "paired_fields f1 f2 =
     (if shutter f1 \<noteq> SKY_CODE \<or> shutter f2 \<noteq> SKY_CODE then Inr 0
      else if cos (dec f1 * DEG_TO_RAD) = 0 then Inl NotFinite
      else
        (let dra = RA_STEP0 / cos (dec f1 * DEG_TO_RAD)
         in if dec f2 = dec f1 \<and> \<bar>clock_difference (ra f1) (ra f2)\<bar> < dra then Inr 1
            else Inr 0))"

section \<open>The selector (scheduler.c, get\_next\_field)\<close>

text \<open>
  The array \<open>sequence\<close> is a list whose length is the capacity of the C array
  (\<open>MAX_FIELDS\<close> in \<open>main\<close>); \<open>num_fields\<close> is passed separately, as in C, and the
  entries from \<open>num_fields\<close> on are whatever the memory holds. \<open>field_at\<close> is the
  read \<open>*(sequence+i)\<close>.
\<close>

definition field_at :: "Field list \<Rightarrow> int \<Rightarrow> error + Field" where
  "field_at sequence i =
     (if 0 \<le> i \<and> i < int (length sequence) then Inr (sequence ! nat i)
      else Inl (OutOfBounds i))"

text \<open>The assignment \<open>(sequence+i)->selection_code = code\<close>.\<close>

definition set_selection_code :: "Field list \<Rightarrow> int \<Rightarrow> Selection_Code \<Rightarrow> error + Field list" where
  "set_selection_code sequence i code =
     (case field_at sequence i of
        Inl e \<Rightarrow> Inl e
      | Inr f \<Rightarrow> Inr (sequence[nat i := f\<lparr>selection_code := code\<rparr>]))"

text \<open>The counters and first indices that the first pass of the selector accumulates.\<close>

record Scan =
  n_left_min :: int
  n_left_min_must_do :: int
  n_ready :: int
  n_late :: int
  n_do_now :: int
  i_min_dark :: int
  i_min_flat :: int
  i_min_do_now :: int
  n_ready_must_do :: int
  n_late_must_do :: int

definition init_scan :: Scan where
  "init_scan =
     \<lparr>n_left_min = 100000, n_left_min_must_do = 100000, n_ready = 0, n_late = 0,
      n_do_now = 0, i_min_dark = -1, i_min_flat = -1, i_min_do_now = -1,
      n_ready_must_do = 0, n_late_must_do = 0\<rparr>"

text \<open>
  The body of the first loop after the call of \<open>update_field_status\<close> (the branch
  \<open>#if 1\<close>): the chain of \<open>if\<close>/\<open>else if\<close> on the updated field \<open>f\<close> at index \<open>i\<close>.
\<close>

definition count_field :: "int \<Rightarrow> Field \<Rightarrow> Scan \<Rightarrow> Scan" where
  "count_field i f c =
     (if status f = READY_STATUS \<and> survey_code f = MUSTDO_SURVEY_CODE then
        (let c = c\<lparr>n_ready_must_do := n_ready_must_do c + 1\<rparr>;
             n_left = n_required f - n_done f
         in if n_left < n_left_min_must_do c then c\<lparr>n_left_min_must_do := n_left\<rparr> else c)
      else if status f = DO_NOW_STATUS then
        (let c = c\<lparr>n_do_now := n_do_now c + 1\<rparr>;
             c = (if i_min_do_now c = -1 then c\<lparr>i_min_do_now := i\<rparr> else c);
             c = (if shutter f = DARK_CODE \<and> i_min_dark c = -1 then c\<lparr>i_min_dark := i\<rparr>
                  else c);
             c = (if (shutter f = DOME_FLAT_CODE \<or> shutter f = EVENING_FLAT_CODE \<or>
                      shutter f = MORNING_FLAT_CODE) \<and> i_min_flat c = -1
                  then c\<lparr>i_min_flat := i\<rparr> else c)
         in c)
      else if status f = READY_STATUS then
        (let c = c\<lparr>n_ready := n_ready c + 1\<rparr>;
             n_left = n_required f - n_done f
         in if n_left < n_left_min c then c\<lparr>n_left_min := n_left\<rparr> else c)
      else if status f = TOO_LATE_STATUS then
        (let c = c\<lparr>n_late := n_late c + 1\<rparr>
         in if survey_code f = MUSTDO_SURVEY_CODE
            then c\<lparr>n_late_must_do := n_late_must_do c + 1\<rparr> else c)
      else c)"

text \<open>
  The first loop, \<open>for(i=0;i<num_fields;i++)\<close>, as a recursion over the indices still
  to visit: each field is updated in place and then counted.
\<close>

fun update_loop ::
  "nat list \<Rightarrow> double \<Rightarrow> int \<Rightarrow> Field list \<times> Scan \<Rightarrow> error + (Field list \<times> Scan)" where
  "update_loop [] jd bad_weather st = Inr st"
| "update_loop (i # is) jd bad_weather (sequence, c) =
     (case field_at sequence (int i) of
        Inl e \<Rightarrow> Inl e
      | Inr f \<Rightarrow>
          (let f' = snd (update_field_status f jd bad_weather)
           in update_loop is jd bad_weather (sequence[i := f'], count_field (int i) f' c)))"

text \<open>
  The search loops of the second pass. Each carries the pair of the best index and the
  best \<open>time_left\<close> so far.
\<close>

fun ready_must_do_loop ::
  "nat list \<Rightarrow> Field list \<Rightarrow> int \<Rightarrow> int \<times> double \<Rightarrow> error + (int \<times> double)" where
  "ready_must_do_loop [] sequence n_min st = Inr st"
| "ready_must_do_loop (i # is) sequence n_min (i_min, time_left_min) =
     (case field_at sequence (int i) of
        Inl e \<Rightarrow> Inl e
      | Inr f \<Rightarrow>
          ready_must_do_loop is sequence n_min
            (if status f = READY_STATUS \<and> survey_code f = MUSTDO_SURVEY_CODE \<and>
                (n_required f = 6 \<or> n_required f - n_done f = n_min) \<and>
                time_left f < time_left_min
             then (int i, time_left f) else (i_min, time_left_min)))"

fun late_must_do_loop ::
  "nat list \<Rightarrow> Field list \<Rightarrow> int \<times> double \<Rightarrow> error + (int \<times> double)" where
  "late_must_do_loop [] sequence st = Inr st"
| "late_must_do_loop (i # is) sequence (i_min, time_left_min) =
     (case field_at sequence (int i) of
        Inl e \<Rightarrow> Inl e
      | Inr f \<Rightarrow>
          late_must_do_loop is sequence
            (if status f = TOO_LATE_STATUS \<and> survey_code f = MUSTDO_SURVEY_CODE \<and>
                time_left f < time_left_min
             then (int i, time_left f) else (i_min, time_left_min)))"

fun ready_loop ::
  "nat list \<Rightarrow> Field list \<Rightarrow> int \<Rightarrow> int \<times> double \<Rightarrow> error + (int \<times> double)" where
  "ready_loop [] sequence n_min st = Inr st"
| "ready_loop (i # is) sequence n_min (i_min, time_left_min) =
     (case field_at sequence (int i) of
        Inl e \<Rightarrow> Inl e
      | Inr f \<Rightarrow>
          ready_loop is sequence n_min
            (if status f = READY_STATUS \<and> n_required f - n_done f = n_min \<and>
                time_left f < time_left_min
             then (int i, time_left f) else (i_min, time_left_min)))"

fun late_loop ::
  "nat list \<Rightarrow> Field list \<Rightarrow> int \<times> double \<Rightarrow> error + (int \<times> double)" where
  "late_loop [] sequence st = Inr st"
| "late_loop (i # is) sequence (i_max, time_left_max) =
     (case field_at sequence (int i) of
        Inl e \<Rightarrow> Inl e
      | Inr f \<Rightarrow>
          late_loop is sequence
            (if status f = TOO_LATE_STATUS \<and> time_left f > time_left_max
             then (int i, time_left f) else (i_max, time_left_max)))"

text \<open>
  Tier 1 (\<open>n_ready_must_do > 0\<close>): the ready must-do field with the least
  \<open>time_left\<close> among those with the least number of visits left, or with
  \<open>n_required = 6\<close>. The selection code is written at \<open>i_min\<close> whatever the search found.
\<close>

definition select_ready_must_do :: "Field list \<Rightarrow> int \<Rightarrow> Scan \<Rightarrow> error + (int \<times> Field list)" where
  "select_ready_must_do sequence num_fields c =
     (case ready_must_do_loop [0..<nat num_fields] sequence (n_left_min_must_do c)
             (-1, 10000.0) of
        Inl e \<Rightarrow> Inl e
      | Inr (i_min, time_left_min) \<Rightarrow>
          (case set_selection_code sequence i_min LEAST_TIME_READY_MUST_DO of
             Inl e \<Rightarrow> Inl e
           | Inr sequence' \<Rightarrow> Inr (i_min, sequence')))"

text \<open>
  Tier 2 (\<open>n_late_must_do > 0\<close>): the search runs over \<open>for(i=0;i<=num_fields;i++)\<close>;
  the field found is shortened, updated, stamped and returned.
\<close>

definition select_late_must_do ::
  "Field list \<Rightarrow> int \<Rightarrow> double \<Rightarrow> int \<Rightarrow> error + (int \<times> Field list)" where
  "select_late_must_do sequence num_fields jd bad_weather =
     (case late_must_do_loop [0..<nat (num_fields + 1)] sequence (-1, 10000.0) of
        Inl e \<Rightarrow> Inl e
      | Inr (i_min, time_left_min) \<Rightarrow>
          (case field_at sequence i_min of
             Inl e \<Rightarrow> Inl e
           | Inr f \<Rightarrow>
               (case shorten_interval f of
                  Inl e \<Rightarrow> Inl e
                | Inr f1 \<Rightarrow>
                    (let f2 = snd (update_field_status f1 jd bad_weather)
                     in Inr (i_min,
                          sequence[nat i_min := f2\<lparr>selection_code := LEAST_TIME_LATE_MUST_DO\<rparr>])))))"

text \<open>Tier 3 (\<open>n_do_now > 0\<close>): the first flat, or else the first dark, or else the first.\<close>

definition select_do_now :: "Field list \<Rightarrow> Scan \<Rightarrow> error + (int \<times> Field list)" where
  "select_do_now sequence c =
     (if i_min_flat c \<ge> 0 then
        (case set_selection_code sequence (i_min_flat c) FIRST_DO_NOW_FLAT of
           Inl e \<Rightarrow> Inl e | Inr sequence' \<Rightarrow> Inr (i_min_flat c, sequence'))
      else if i_min_dark c \<ge> 0 then
        (case set_selection_code sequence (i_min_dark c) FIRST_DO_NOW_DARK of
           Inl e \<Rightarrow> Inl e | Inr sequence' \<Rightarrow> Inr (i_min_dark c, sequence'))
      else
        (case set_selection_code sequence (i_min_do_now c) FIRST_DO_NOW of
           Inl e \<Rightarrow> Inl e | Inr sequence' \<Rightarrow> Inr (i_min_do_now c, sequence')))"

text \<open>
  Tier 4, once \<open>f_prev\<close> is not \<open>NULL\<close>, \<open>paired_fields(f_next,f_prev)\<close> holds and
  \<open>f_next->doable\<close> is not zero: the field after the previous one is returned whatever
  its status; a late one is shortened and updated first.
\<close>

definition select_pair ::
  "Field list \<Rightarrow> int \<Rightarrow> Field \<Rightarrow> double \<Rightarrow> int \<Rightarrow> error + (int \<times> Field list)" where
  "select_pair sequence i_prev f_next jd bad_weather =
     (if status f_next = READY_STATUS then
        Inr (i_prev + 1,
             sequence[nat (i_prev + 1) := f_next\<lparr>selection_code := FIRST_READY_PAIR\<rparr>])
      else if status f_next = TOO_LATE_STATUS then
        (case shorten_interval f_next of
           Inl e \<Rightarrow> Inl e
         | Inr f1 \<Rightarrow>
             (let f2 = snd (update_field_status f1 jd bad_weather)
              in if status f2 = READY_STATUS then
                   Inr (i_prev + 1,
                        sequence[nat (i_prev + 1) := f2\<lparr>selection_code := FIRST_LATE_PAIR\<rparr>])
                 else
                   Inr (i_prev + 1,
                        sequence[nat (i_prev + 1) :=
                                   f2\<lparr>selection_code := FIRST_NOT_READY_LATE_PAIR\<rparr>])))
      else
        Inr (i_prev + 1,
             sequence[nat (i_prev + 1) :=
                        f_next\<lparr>selection_code := FIRST_NOT_READY_NOT_LATE_PAIR\<rparr>]))"

text \<open>Tier 5 (\<open>n_ready > 0\<close>).\<close>

definition select_ready :: "Field list \<Rightarrow> int \<Rightarrow> Scan \<Rightarrow> error + (int \<times> Field list)" where
  "select_ready sequence num_fields c =
     (case ready_loop [0..<nat num_fields] sequence (n_left_min c) (-1, 10000.0) of
        Inl e \<Rightarrow> Inl e
      | Inr (i_min, time_left_min) \<Rightarrow>
          (case set_selection_code sequence i_min LEAST_TIME_READY of
             Inl e \<Rightarrow> Inl e
           | Inr sequence' \<Rightarrow> Inr (i_min, sequence')))"

text \<open>
  Tier 6 (\<open>n_late > 0\<close>) and the final \<open>return(-1)\<close>: the late field with the most
  \<open>time_left\<close> (above \<open>-1000\<close>), searched over \<open>for(i=0;i<=num_fields;i++)\<close>, is
  shortened and updated; it is returned only when that made it ready.
\<close>

definition select_late ::
  "Field list \<Rightarrow> int \<Rightarrow> double \<Rightarrow> int \<Rightarrow> error + (int \<times> Field list)" where
  "select_late sequence num_fields jd bad_weather =
     (case late_loop [0..<nat (num_fields + 1)] sequence (-1, -1000) of
        Inl e \<Rightarrow> Inl e
      | Inr (i_max, time_left_max) \<Rightarrow>
          if i_max < 0 then Inr (-1, sequence)
          else
            (case field_at sequence i_max of
               Inl e \<Rightarrow> Inl e
             | Inr f \<Rightarrow>
                 (case shorten_interval f of
                    Inl e \<Rightarrow> Inl e
                  | Inr f1 \<Rightarrow>
                      (let f2 = snd (update_field_status f1 jd bad_weather)
                       in if status f2 = READY_STATUS then
                            Inr (i_max,
                                 sequence[nat i_max :=
                                            f2\<lparr>selection_code := MOST_TIME_READY_LATE\<rparr>])
                          else Inr (-1, sequence[nat i_max := f2])))))"

text \<open>
  The tiers after the do-now tier. \<open>f_prev\<close> and \<open>f_next\<close> are not \<open>NULL\<close> when
  \<open>i_prev>=0&&i_prev<num_fields-1\<close>; the condition of tier 4 is evaluated left to right
  with the short circuit of \<open>&&\<close>.
\<close>

definition select_rest ::
  "Field list \<Rightarrow> int \<Rightarrow> int \<Rightarrow> double \<Rightarrow> int \<Rightarrow> Scan \<Rightarrow> error + (int \<times> Field list)" where
  "select_rest sequence num_fields i_prev jd bad_weather c =
     (let after_pair =
            (if n_ready c > 0 then select_ready sequence num_fields c
             else if n_late c > 0 then select_late sequence num_fields jd bad_weather
             else Inr (-1, sequence))
      in if i_prev \<ge> 0 \<and> i_prev < num_fields - 1 then
           (case field_at sequence (i_prev + 1) of
              Inl e \<Rightarrow> Inl e
            | Inr f_next \<Rightarrow>
                (case field_at sequence i_prev of
                   Inl e \<Rightarrow> Inl e
                 | Inr f_prev \<Rightarrow>
                     (case paired_fields f_next f_prev of
                        Inl e \<Rightarrow> Inl e
                      | Inr paired \<Rightarrow>
                          if paired \<noteq> 0 \<and> doable f_next \<noteq> 0
                          then select_pair sequence i_prev f_next jd bad_weather
                          else after_pair)))
         else after_pair)"

text \<open>
  \<open>get_next_field\<close> returns the index chosen (\<open>-1\<close> for none) and the array as it
  leaves it.
\<close>

definition get_next_field ::
  "Field list \<Rightarrow> int \<Rightarrow> int \<Rightarrow> double \<Rightarrow> int \<Rightarrow> error + (int \<times> Field list)" where
  "get_next_field sequence num_fields i_prev jd bad_weather =
     (case update_loop [0..<nat num_fields] jd bad_weather (sequence, init_scan) of
        Inl e \<Rightarrow> Inl e
      | Inr (sequence1, c) \<Rightarrow>
          if n_ready_must_do c > 0 then select_ready_must_do sequence1 num_fields c
          else if n_late_must_do c > 0 then
            select_late_must_do sequence1 num_fields jd bad_weather
          else if n_do_now c > 0 then select_do_now sequence1 c
          else select_rest sequence1 num_fields i_prev jd bad_weather c)"

section \<open>Bad readout of the previous exposure (scheduler.c, observe\_next\_field)\<close>


section \<open>Hour angle (scheduler.c, get\_ha)\<close>

definition get_ha :: "double \<Rightarrow> double \<Rightarrow> double" where
  "get_ha ra_hours lst =
     (let ha = lst - ra_hours
      in if ha \<le> -12.0 then ha + 24.0
         else if ha \<ge> 12.0 then ha - 24.0
         else ha)"

section \<open>Observing window of the night (scheduler.c, init\_night)\<close>

text \<open>
  The members of \<open>Night_Times\<close> (sky\_utils.h) that \<open>init_night\<close> reads or writes.
  \<open>init_night\<close> first calls \<open>print_tonight\<close> (almanac.c), which fills the twilight
  members from the date and the site; the model takes the record as \<open>print_tonight\<close>
  leaves it.
\<close>

record Night_Times =
  jd_start :: double
  jd_end :: double
  ut_start :: double
  ut_end :: double
  lst_start :: double
  lst_end :: double
  jd_evening12 :: double
  jd_evening18 :: double
  jd_morning12 :: double
  jd_morning18 :: double
  ut_evening12 :: double
  ut_evening18 :: double
  ut_morning12 :: double
  ut_morning18 :: double
  lst_evening12 :: double
  lst_evening18 :: double
  lst_morning12 :: double
  lst_morning18 :: double

definition init_night :: "Night_Times \<Rightarrow> Night_Times" where
  "init_night nt =
     (let nt =
            (if USE_12DEG_START \<noteq> 0 then
               nt\<lparr>ut_start := ut_evening12 nt + STARTUP_TIME,
                  ut_end := ut_morning12 nt - MIN_EXECUTION_TIME,
                  lst_start := lst_evening12 nt + STARTUP_TIME,
                  lst_end := lst_morning12 nt - MIN_EXECUTION_TIME,
                  jd_start := jd_evening12 nt + STARTUP_TIME / 24.0,
                  jd_end := jd_morning12 nt - MIN_EXECUTION_TIME / 24.0\<rparr>
             else
               nt\<lparr>ut_start := ut_evening18 nt + STARTUP_TIME,
                  ut_end := ut_morning18 nt - MIN_EXECUTION_TIME,
                  lst_start := lst_evening18 nt + STARTUP_TIME,
                  lst_end := lst_morning18 nt - MIN_EXECUTION_TIME,
                  jd_start := jd_evening18 nt + STARTUP_TIME / 24.0,
                  jd_end := jd_morning18 nt - MIN_EXECUTION_TIME / 24.0\<rparr>);
          nt = (if ut_start nt > 24.0 then nt\<lparr>ut_start := ut_start nt - 24.0\<rparr> else nt);
          nt = (if lst_start nt > 24.0 then nt\<lparr>lst_start := lst_start nt - 24.0\<rparr> else nt);
          nt = (if ut_end nt < 0.0 then nt\<lparr>ut_end := ut_end nt + 24.0\<rparr> else nt);
          nt = (if lst_end nt < 0.0 then nt\<lparr>lst_end := lst_end nt + 24.0\<rparr> else nt)
      in nt)"

section \<open>Reply timeout of an exposure (scheduler\_camera.c, expose\_timeout)\<close>

definition READOUT_TIME_SEC :: double where "READOUT_TIME_SEC = 40"
definition TRANSFER_TIME_SEC :: double where "TRANSFER_TIME_SEC = 10"

definition EXP_MODE_SINGLE :: string where "EXP_MODE_SINGLE = ''single''"
definition EXP_MODE_FIRST :: string where "EXP_MODE_FIRST = ''first''"
definition EXP_MODE_NEXT :: string where "EXP_MODE_NEXT = ''next''"
definition EXP_MODE_LAST :: string where "EXP_MODE_LAST = ''last''"

text \<open>
  \<open>strstr(haystack,needle)!=NULL\<close>: the needle occurs in the haystack, at its start or
  further on.
\<close>

fun starts_with :: "string \<Rightarrow> string \<Rightarrow> bool" where
  "starts_with s [] = True"
| "starts_with [] (c # cs) = False"
| "starts_with (d # ds) (c # cs) = (d = c \<and> starts_with ds cs)"

fun strstr :: "string \<Rightarrow> string \<Rightarrow> bool" where
  "strstr [] needle = (needle = [])"
| "strstr (d # ds) needle = (if starts_with (d # ds) needle then True else strstr ds needle)"

text \<open>
  \<open>t\<close> is \<open>None\<close> on the branch that returns \<open>-1\<close> at once (an unrecognised mode);
  on every other branch the function goes on to \<open>t = t + 5.0\<close>.
\<close>

definition expose_timeout :: "string \<Rightarrow> double \<Rightarrow> bool \<Rightarrow> double" where
  "expose_timeout exp_mode exp_time wait_flag =
     (let t =
            (if \<not> wait_flag then Some (exp_time + READOUT_TIME_SEC)
             else if strstr exp_mode EXP_MODE_SINGLE then
               Some (exp_time + READOUT_TIME_SEC + TRANSFER_TIME_SEC)
             else if strstr exp_mode EXP_MODE_FIRST then Some (exp_time + READOUT_TIME_SEC)
             else if strstr exp_mode EXP_MODE_NEXT then
               (if exp_time + READOUT_TIME_SEC > TRANSFER_TIME_SEC then Some exp_time
                else Some TRANSFER_TIME_SEC)
             else if strstr exp_mode EXP_MODE_LAST then Some TRANSFER_TIME_SEC
             else None)
      in case t of None \<Rightarrow> -1 | Some t \<Rightarrow> t + 5.0)"

section \<open>Vocabulary for the properties of the selector\<close>

text \<open>
  The field at index \<open>i\<close> as the first loop of the selector leaves it: the result of the
  per-field status update.
\<close>

definition updated :: "Field list \<Rightarrow> double \<Rightarrow> int \<Rightarrow> nat \<Rightarrow> Field" where
  "updated sequence jd bad_weather i = snd (update_field_status (sequence ! i) jd bad_weather)"

text \<open>
  The tests of the first loop and of the search of tier 1, as predicates on an updated
  field: a ready must-do field, a late must-do field, the number of visits left
  (\<open>n_left\<close> in the source), and the test \<open>f->n_required==6||n_left==n_left_min_must_do\<close>
  of the search.
\<close>

definition ready_must_do :: "Field \<Rightarrow> bool" where
  "ready_must_do f = (status f = READY_STATUS \<and> survey_code f = MUSTDO_SURVEY_CODE)"

definition late_must_do :: "Field \<Rightarrow> bool" where
  "late_must_do f = (status f = TOO_LATE_STATUS \<and> survey_code f = MUSTDO_SURVEY_CODE)"

definition visits_left :: "Field \<Rightarrow> int" where
  "visits_left f = n_required f - n_done f"

definition must_do_eligible :: "int \<Rightarrow> Field \<Rightarrow> bool" where
  "must_do_eligible n_min f =
     (status f = READY_STATUS \<and> survey_code f = MUSTDO_SURVEY_CODE \<and>
      (n_required f = 6 \<or> n_required f - n_done f = n_min))"

text \<open>
  The candidates of tier 1, stated on the fields alone: a ready must-do field with
  \<open>n_required = 6\<close>, or one whose number of visits left is the least among the ready
  must-do fields (and at most 100000, the initial value of \<open>n_left_min_must_do\<close>).
\<close>

definition must_do_candidate :: "(nat \<Rightarrow> Field) \<Rightarrow> nat \<Rightarrow> Field \<Rightarrow> bool" where
  "must_do_candidate F n f =
     (ready_must_do f \<and>
      (n_required f = 6 \<or>
       (visits_left f \<le> 100000 \<and>
        (\<forall>j<n. ready_must_do (F j) \<longrightarrow> visits_left f \<le> visits_left (F j)))))"

text \<open>
  The counters after the first \<open>n\<close> fields, and the state of the search of tier 1 after
  the first \<open>n\<close> fields, with the two forms that state can have: nothing found yet, or the
  best candidate so far.
\<close>

definition scan_upto :: "(nat \<Rightarrow> Field) \<Rightarrow> nat \<Rightarrow> Scan" where
  "scan_upto F n = fold (\<lambda>i. count_field (int i) (F i)) [0..<n] init_scan"

definition best_step :: "Field list \<Rightarrow> int \<Rightarrow> nat \<Rightarrow> int \<times> double \<Rightarrow> int \<times> double" where
  "best_step s n_min i st =
     (if must_do_eligible n_min (s ! i) \<and> time_left (s ! i) < snd st
      then (int i, time_left (s ! i)) else st)"

definition best_upto :: "Field list \<Rightarrow> int \<Rightarrow> nat \<Rightarrow> int \<times> double" where
  "best_upto s n_min n = fold (best_step s n_min) [0..<n] (-1, 10000)"

definition best_none :: "Field list \<Rightarrow> int \<Rightarrow> nat \<Rightarrow> int \<times> double \<Rightarrow> bool" where
  "best_none s n_min n st =
     (st = (-1, 10000) \<and>
      (\<forall>j<n. must_do_eligible n_min (s ! j) \<longrightarrow> 10000 \<le> time_left (s ! j)))"

definition best_found :: "Field list \<Rightarrow> int \<Rightarrow> nat \<Rightarrow> int \<times> double \<Rightarrow> bool" where
  "best_found s n_min n st =
     (0 \<le> fst st \<and> nat (fst st) < n \<and> must_do_eligible n_min (s ! nat (fst st)) \<and>
      snd st = time_left (s ! nat (fst st)) \<and> snd st < 10000 \<and>
      (\<forall>j<n. must_do_eligible n_min (s ! j) \<longrightarrow> snd st \<le> time_left (s ! j)) \<and>
      (\<forall>j<nat (fst st). must_do_eligible n_min (s ! j) \<longrightarrow> snd st < time_left (s ! j)))"

section \<open>Concrete fields and nights\<close>

text \<open>
  The inputs at which the theorems below are instantiated. The numbers of the fields are
  small integers, on which double arithmetic is exact as well.
\<close>

text \<open>A sky field with one visit out of three done, up from \<open>jd = 100\<close> to \<open>jd = 101\<close>.\<close>

definition sky_field :: Field where
  "sky_field =
     \<lparr>status = 0, doable = 1, selection_code = NOT_SELECTED, ra = 18, dec = 0,
      shutter = SKY_CODE, interval = 1, n_required = 3, survey_code = NO_SURVEY_CODE,
      jd_rise = 100, jd_set = 101, jd_next = 100, n_done = 1, time_up = 0,
      time_required = 0, time_left = 0\<rparr>"

text \<open>A dark and a ready must-do sky field.\<close>

definition dark_field :: Field where
  "dark_field =
     \<lparr>status = 0, doable = 1, selection_code = NOT_SELECTED, ra = 0, dec = 0,
      shutter = DARK_CODE, interval = 1, n_required = 3, survey_code = NO_SURVEY_CODE,
      jd_rise = 100, jd_set = 101, jd_next = 100, n_done = 0, time_up = 0,
      time_required = 0, time_left = 0\<rparr>"

definition must_do_field :: Field where
  "must_do_field =
     \<lparr>status = 0, doable = 1, selection_code = NOT_SELECTED, ra = 18, dec = 0,
      shutter = SKY_CODE, interval = 1, n_required = 3, survey_code = MUSTDO_SURVEY_CODE,
      jd_rise = 100, jd_set = 101, jd_next = 100, n_done = 0, time_up = 0,
      time_required = 0, time_left = 0\<rparr>"

text \<open>
  Two must-do sky fields: the first has two visits left and sets at \<open>jd = 101\<close>, the second
  has one visit left and sets at \<open>jd = 102\<close>.
\<close>

definition must_do_two_left :: Field where
  "must_do_two_left =
     \<lparr>status = 0, doable = 1, selection_code = NOT_SELECTED, ra = 18, dec = 0,
      shutter = SKY_CODE, interval = 1, n_required = 3, survey_code = MUSTDO_SURVEY_CODE,
      jd_rise = 100, jd_set = 101, jd_next = 100, n_done = 1, time_up = 0,
      time_required = 0, time_left = 0\<rparr>"

definition must_do_one_left :: Field where
  "must_do_one_left =
     \<lparr>status = 0, doable = 1, selection_code = NOT_SELECTED, ra = 19, dec = 0,
      shutter = SKY_CODE, interval = 1, n_required = 3, survey_code = MUSTDO_SURVEY_CODE,
      jd_rise = 100, jd_set = 102, jd_next = 100, n_done = 2, time_up = 0,
      time_required = 0, time_left = 0\<rparr>"

text \<open>
  A must-do sky field that sets at \<open>jd = 100\<close> with three visits of one hour to go, and
  a finished field, as the slot after the last field of the array may hold.
\<close>

definition setting_must_do :: Field where
  "setting_must_do =
     \<lparr>status = 0, doable = 1, selection_code = NOT_SELECTED, ra = 18, dec = 0,
      shutter = SKY_CODE, interval = 1, n_required = 3, survey_code = MUSTDO_SURVEY_CODE,
      jd_rise = 99, jd_set = 100, jd_next = 99, n_done = 0, time_up = 0,
      time_required = 0, time_left = 0\<rparr>"

definition spare_slot :: Field where
  "spare_slot =
     \<lparr>status = 0, doable = 0, selection_code = NOT_SELECTED, ra = 0, dec = 0,
      shutter = SKY_CODE, interval = 1, n_required = 3, survey_code = NO_SURVEY_CODE,
      jd_rise = 0, jd_set = 0, jd_next = 0, n_done = 3, time_up = 0,
      time_required = 0, time_left = 0\<rparr>"

text \<open>
  The slot after the last field is not initialised by the scheduler (the array of \<open>main\<close>
  is a local one, and \<open>load_sequence\<close> parses a rejected line into that slot). Here it
  holds the remains of a must-do field with the status TooLate.
\<close>

definition stale_slot :: Field where
  "stale_slot =
     \<lparr>status = TOO_LATE_STATUS, doable = 1, selection_code = NOT_SELECTED, ra = 0, dec = 0,
      shutter = SKY_CODE, interval = 1, n_required = 3, survey_code = MUSTDO_SURVEY_CODE,
      jd_rise = 0, jd_set = 0, jd_next = 0, n_done = 0, time_up = 0,
      time_required = 3, time_left = -100\<rparr>"

text \<open>
  A night as \<open>print_tonight\<close> may leave it at a site of high latitude in winter: the
  12-degree twilights are at LST 1 h and LST 15 h.
\<close>

definition long_night :: Night_Times where
  "long_night =
     \<lparr>jd_start = 0, jd_end = 0, ut_start = 0, ut_end = 0, lst_start = 0, lst_end = 0,
      jd_evening12 = 1000, jd_evening18 = 1000.0625, jd_morning12 = 1000.5833,
      jd_morning18 = 1000.5208, ut_evening12 = 20, ut_evening18 = 21.5, ut_morning12 = 10,
      ut_morning18 = 8.5, lst_evening12 = 1, lst_evening18 = 2.5, lst_morning12 = 15,
      lst_morning18 = 13.5\<rparr>"

definition short_night :: Night_Times where
  "short_night =
     \<lparr>jd_start = 0, jd_end = 0, ut_start = 0, ut_end = 0, lst_start = 0, lst_end = 0,
      jd_evening12 = 1000, jd_evening18 = 1000.0625, jd_morning12 = 1000.375,
      jd_morning18 = 1000.3125, ut_evening12 = 1, ut_evening18 = 2.5, ut_morning12 = 10,
      ut_morning18 = 8.5, lst_evening12 = 14, lst_evening18 = 15.5, lst_morning12 = 23,
      lst_morning18 = 21.5\<rparr>"

section \<open>Evaluation rules\<close>

lemmas status_defs =
  TOO_LATE_STATUS_def NOT_DOABLE_STATUS_def READY_STATUS_def DO_NOW_STATUS_def

lemmas shutter_defs =
  BAD_CODE_def DARK_CODE_def SKY_CODE_def FOCUS_CODE_def OFFSET_CODE_def
  EVENING_FLAT_CODE_def MORNING_FLAT_CODE_def DOME_FLAT_CODE_def LIGO_CODE_def

lemmas survey_defs =
  NO_SURVEY_CODE_def TNO_SURVEY_CODE_def SNE_SURVEY_CODE_def MUSTDO_SURVEY_CODE_def
  LIGO_SURVEY_CODE_def

lemmas selector_defs =
  get_next_field_def field_at_def set_selection_code_def count_field_def init_scan_def
  select_ready_must_do_def select_late_must_do_def select_do_now_def select_pair_def
  select_ready_def select_late_def select_rest_def shorten_interval_def
  update_field_status_def MIN_INTERVAL_def MIN_EXECUTION_TIME_def Let_def upt_rec

section \<open>Properties of the status update\<close>

text \<open>
  C5. Calling the status update twice in succession with the same Julian date and the same
  weather flag changes nothing the second time: the second call returns the status the
  first one returned and leaves the field as the first call left it.
\<close>

theorem update_field_status_idempotent:
  "update_field_status (snd (update_field_status f jd bad_weather)) jd bad_weather
     = update_field_status f jd bad_weather"
  by (simp add: update_field_status_def Let_def status_defs)

text \<open>
  C4. One call of the status update on a field \<open>f\<close> at time \<open>jd\<close> follows the
  dispatch of the specification, each test being reached when the earlier ones fail:
  \<open>doable = 0\<close> gives NotDoable; \<open>n_done = n_required\<close> clears \<open>doable\<close> and gives
  NotDoable; \<open>jd < jd_rise\<close> gives NotDoable; \<open>jd > jd_set\<close> clears \<open>doable\<close> and
  gives NotDoable; \<open>jd_next - jd > MIN_EXECUTION_TIME/24\<close> gives NotDoable; a Dark or a
  DomeFlat gives DoNow; a Focus, Offset, EveningFlat or MorningFlat gives DoNow in good
  weather and NotDoable otherwise; for a Sky field \<open>time_required\<close>, \<open>time_up\<close> and
  \<open>time_left\<close> are recomputed as \<open>(n_required - n_done) * interval\<close>,
  \<open>(jd_set - jd) * 24\<close> and their difference, and the status is TooLate when
  \<open>time_left < 0\<close> and Ready otherwise. Nothing else of the field changes.
\<close>

theorem update_field_status_dispatch:
  "(doable f = 0 \<longrightarrow>
      update_field_status f jd bad_weather
        = (NOT_DOABLE_STATUS, f\<lparr>status := NOT_DOABLE_STATUS\<rparr>)) \<and>
   (doable f \<noteq> 0 \<longrightarrow>
     (n_done f = n_required f \<longrightarrow>
        update_field_status f jd bad_weather
          = (NOT_DOABLE_STATUS, f\<lparr>doable := 0, status := NOT_DOABLE_STATUS\<rparr>)) \<and>
     (n_done f \<noteq> n_required f \<longrightarrow>
       (jd < jd_rise f \<longrightarrow>
          update_field_status f jd bad_weather
            = (NOT_DOABLE_STATUS, f\<lparr>status := NOT_DOABLE_STATUS\<rparr>)) \<and>
       (jd_rise f \<le> jd \<longrightarrow>
         (jd > jd_set f \<longrightarrow>
            update_field_status f jd bad_weather
              = (NOT_DOABLE_STATUS, f\<lparr>doable := 0, status := NOT_DOABLE_STATUS\<rparr>)) \<and>
         (jd \<le> jd_set f \<longrightarrow>
           (jd_next f - jd > MIN_EXECUTION_TIME / 24 \<longrightarrow>
              update_field_status f jd bad_weather
                = (NOT_DOABLE_STATUS, f\<lparr>status := NOT_DOABLE_STATUS\<rparr>)) \<and>
           (jd_next f - jd \<le> MIN_EXECUTION_TIME / 24 \<longrightarrow>
             (shutter f = DARK_CODE \<or> shutter f = DOME_FLAT_CODE \<longrightarrow>
                update_field_status f jd bad_weather
                  = (DO_NOW_STATUS, f\<lparr>status := DO_NOW_STATUS\<rparr>)) \<and>
             (shutter f = FOCUS_CODE \<or> shutter f = OFFSET_CODE \<or>
              shutter f = EVENING_FLAT_CODE \<or> shutter f = MORNING_FLAT_CODE \<longrightarrow>
                update_field_status f jd bad_weather
                  = (if bad_weather = 0 then (DO_NOW_STATUS, f\<lparr>status := DO_NOW_STATUS\<rparr>)
                     else (NOT_DOABLE_STATUS, f\<lparr>status := NOT_DOABLE_STATUS\<rparr>))) \<and>
             (shutter f = SKY_CODE \<longrightarrow>
                update_field_status f jd bad_weather
                  = (let required = real_of_int (n_required f - n_done f) * interval f;
                         up = (jd_set f - jd) * 24;
                         left = up - required;
                         s = (if left < 0 then TOO_LATE_STATUS else READY_STATUS)
                     in (s, f\<lparr>time_required := required, time_up := up,
                                time_left := left, status := s\<rparr>))))))))"
  by (simp add: update_field_status_def Let_def shutter_defs)

theorem update_field_status_dispatch_witness:
  "doable sky_field \<noteq> 0 \<and> n_done sky_field \<noteq> n_required sky_field \<and>
   jd_rise sky_field \<le> 100 \<and> 100 \<le> jd_set sky_field \<and>
   jd_next sky_field - 100 \<le> MIN_EXECUTION_TIME / 24 \<and> shutter sky_field = SKY_CODE \<and>
   update_field_status sky_field 100 0
     = (READY_STATUS,
        sky_field\<lparr>time_required := 2, time_up := 24, time_left := 22, status := READY_STATUS\<rparr>) \<and>
   update_field_status (sky_field\<lparr>jd_set := 100\<rparr>) 100 0
     = (TOO_LATE_STATUS,
        sky_field\<lparr>jd_set := 100, time_required := 2, time_up := 0, time_left := -2,
               status := TOO_LATE_STATUS\<rparr>) \<and>
   update_field_status (sky_field\<lparr>shutter := DARK_CODE\<rparr>) 100 1
     = (DO_NOW_STATUS, sky_field\<lparr>shutter := DARK_CODE, status := DO_NOW_STATUS\<rparr>) \<and>
   update_field_status (sky_field\<lparr>shutter := FOCUS_CODE\<rparr>) 100 1
     = (NOT_DOABLE_STATUS, sky_field\<lparr>shutter := FOCUS_CODE, status := NOT_DOABLE_STATUS\<rparr>) \<and>
   update_field_status (sky_field\<lparr>n_done := 3\<rparr>) 100 0
     = (NOT_DOABLE_STATUS, sky_field\<lparr>n_done := 3, doable := 0, status := NOT_DOABLE_STATUS\<rparr>)"
  using update_field_status_dispatch [of sky_field 100 0]
        update_field_status_dispatch [of "sky_field\<lparr>jd_set := 100\<rparr>" 100 0]
        update_field_status_dispatch [of "sky_field\<lparr>shutter := DARK_CODE\<rparr>" 100 1]
        update_field_status_dispatch [of "sky_field\<lparr>shutter := FOCUS_CODE\<rparr>" 100 1]
        update_field_status_dispatch [of "sky_field\<lparr>n_done := 3\<rparr>" 100 0]
  by (simp add: sky_field_def Let_def shutter_defs status_defs MIN_EXECUTION_TIME_def)

section \<open>Properties of the bad-readout step\<close>




section \<open>Properties of the hour angle\<close>

text \<open>
  C9, as stated, fails: for \<open>ra = 12\<close> and \<open>lst = 0\<close> the difference is \<open>-12\<close>, the
  test \<open>ha <= -12.0\<close> holds, and \<open>get_ha\<close> returns \<open>+12\<close>.
\<close>

theorem get_ha_plus_twelve: "get_ha 12 0 = 12 \<and> \<not> get_ha 12 0 < 12"
  by (simp add: get_ha_def)

text \<open>
  C9, amended. For a right ascension and a local sidereal time in \<open>[0,24)\<close> the hour
  angle returned by \<open>get_ha\<close> lies in the closed range \<open>-12 \<le> ha \<le> 12\<close>; \<open>+12\<close> is
  returned exactly when \<open>lst - ra = -12\<close>, and \<open>-12\<close> exactly when \<open>lst - ra = 12\<close>.
  The value returned is \<open>lst - ra\<close> itself or differs from it by 24 hours.
\<close>

theorem get_ha_range:
  "0 \<le> ra_hours \<and> ra_hours < 24 \<and> 0 \<le> lst \<and> lst < 24 \<longrightarrow>
     -12 \<le> get_ha ra_hours lst \<and> get_ha ra_hours lst \<le> 12 \<and>
     (get_ha ra_hours lst = 12 \<longleftrightarrow> lst - ra_hours = -12) \<and>
     (get_ha ra_hours lst = -12 \<longleftrightarrow> lst - ra_hours = 12) \<and>
     (get_ha ra_hours lst = lst - ra_hours \<or>
      get_ha ra_hours lst = lst - ra_hours + 24 \<or>
      get_ha ra_hours lst = lst - ra_hours - 24)"
  by (auto simp add: get_ha_def Let_def)

theorem get_ha_range_witness:
  "(0::real) \<le> 18 \<and> (18::real) < 24 \<and> (0::real) \<le> 6 \<and> (6::real) < 24 \<and>
   get_ha 18 6 = 12 \<and> get_ha 6 18 = -12 \<and> get_ha 18 19 = 1 \<and> get_ha 1 23 = -2"
  using get_ha_range [of 18 6] get_ha_range [of 6 18] get_ha_range [of 18 19]
        get_ha_range [of 1 23]
  by auto

section \<open>Properties of the observing window\<close>

text \<open>
  C6, as stated, fails: \<open>init_night\<close> of scheduler.c has no contraction step. For a night
  whose 12-degree twilights are at LST 1 h and LST 15 h it leaves a window from LST 1 h to
  LST 14.971 h, which spans more than 12 hours.
\<close>

theorem init_night_long_night:
  "lst_start (init_night long_night) = 1 \<and> lst_end (init_night long_night) = 14.971 \<and>
   \<not> \<bar>lst_end (init_night long_night) - lst_start (init_night long_night)\<bar> \<le> 12"
  by (simp add: init_night_def long_night_def Let_def USE_12DEG_START_def STARTUP_TIME_def
      MIN_EXECUTION_TIME_def)

text \<open>
  C6, amended. \<open>init_night\<close> of scheduler.c does not contract the window: when the
  twilight LSTs need no wrap (\<open>lst_evening12 \<le> 24\<close> and
  \<open>lst_morning12 \<ge> MIN_EXECUTION_TIME\<close>), \<open>lst_start\<close> is the evening twilight plus
  \<open>STARTUP_TIME\<close>, \<open>lst_end\<close> is the morning twilight minus \<open>MIN_EXECUTION_TIME\<close>, and
  the LST span of the window is at most 12 h exactly when the span between the twilights,
  less the two delays, is.
\<close>

theorem init_night_no_contraction:
  "lst_evening12 nt \<le> 24 \<and> MIN_EXECUTION_TIME \<le> lst_morning12 nt \<longrightarrow>
     lst_start (init_night nt) = lst_evening12 nt + STARTUP_TIME \<and>
     lst_end (init_night nt) = lst_morning12 nt - MIN_EXECUTION_TIME \<and>
     (\<bar>lst_end (init_night nt) - lst_start (init_night nt)\<bar> \<le> 12 \<longleftrightarrow>
      \<bar>lst_morning12 nt - lst_evening12 nt - (MIN_EXECUTION_TIME + STARTUP_TIME)\<bar> \<le> 12)"
  by (auto simp add: init_night_def Let_def USE_12DEG_START_def STARTUP_TIME_def
      MIN_EXECUTION_TIME_def)

theorem init_night_no_contraction_witness:
  "lst_evening12 short_night \<le> 24 \<and> MIN_EXECUTION_TIME \<le> lst_morning12 short_night \<and>
   lst_start (init_night short_night) = 14 \<and> lst_end (init_night short_night) = 22.971 \<and>
   \<bar>lst_end (init_night short_night) - lst_start (init_night short_night)\<bar> \<le> 12"
  using init_night_no_contraction [of short_night]
  by (simp add: short_night_def STARTUP_TIME_def MIN_EXECUTION_TIME_def)

section \<open>Properties of the expose timeout\<close>

text \<open>
  C7, as stated, fails: with \<open>wait_flag\<close> false the timeout of the mode \<open>last\<close> includes
  the exposure time; for 10 s it is 55 s and not readout + 5 = 45 s.
\<close>

theorem expose_timeout_last_no_wait:
  "expose_timeout EXP_MODE_LAST 10 False = 55 \<and>
   expose_timeout EXP_MODE_LAST 10 False \<noteq> READOUT_TIME_SEC + 5"
  by (simp add: expose_timeout_def READOUT_TIME_SEC_def)

text \<open>
  C7, amended. With \<open>wait_flag\<close> true the timeout is exp + readout + fetch + 5 for
  \<open>single\<close>, exp + readout + 5 for \<open>first\<close> and fetch + 5 for \<open>last\<close>; with
  \<open>wait_flag\<close> false it is exp + readout + 5 whatever the mode, \<open>last\<close> included.
  (Nothing is said of \<open>next\<close> with \<open>wait_flag\<close> true.)
\<close>

theorem expose_timeout_table:
  "expose_timeout EXP_MODE_SINGLE exp_time True
     = exp_time + READOUT_TIME_SEC + TRANSFER_TIME_SEC + 5 \<and>
   expose_timeout EXP_MODE_FIRST exp_time True = exp_time + READOUT_TIME_SEC + 5 \<and>
   expose_timeout EXP_MODE_LAST exp_time True = TRANSFER_TIME_SEC + 5 \<and>
   expose_timeout EXP_MODE_SINGLE exp_time False = exp_time + READOUT_TIME_SEC + 5 \<and>
   expose_timeout EXP_MODE_FIRST exp_time False = exp_time + READOUT_TIME_SEC + 5 \<and>
   expose_timeout EXP_MODE_NEXT exp_time False = exp_time + READOUT_TIME_SEC + 5 \<and>
   expose_timeout EXP_MODE_LAST exp_time False = exp_time + READOUT_TIME_SEC + 5"
  by (simp add: expose_timeout_def EXP_MODE_SINGLE_def EXP_MODE_FIRST_def EXP_MODE_NEXT_def
      EXP_MODE_LAST_def)

section \<open>The loops of the selector\<close>

subsection \<open>The first loop: what each counter records\<close>

lemma scan_upto_0: "scan_upto F 0 = init_scan"
  by (simp add: scan_upto_def)

lemma scan_upto_Suc: "scan_upto F (Suc n) = count_field (int n) (F n) (scan_upto F n)"
  by (simp add: scan_upto_def)

lemma count_n_ready_must_do:
  "n_ready_must_do (count_field i f c)
     = (if ready_must_do f then n_ready_must_do c + 1 else n_ready_must_do c)"
  by (simp add: count_field_def Let_def ready_must_do_def)

lemma count_n_left_min_must_do:
  "n_left_min_must_do (count_field i f c)
     = (if ready_must_do f \<and> n_required f - n_done f < n_left_min_must_do c
        then n_required f - n_done f else n_left_min_must_do c)"
  by (simp add: count_field_def Let_def ready_must_do_def)

lemma count_n_late_must_do:
  "n_late_must_do (count_field i f c)
     = (if late_must_do f then n_late_must_do c + 1 else n_late_must_do c)"
  by (simp add: count_field_def Let_def late_must_do_def status_defs)

lemma count_n_do_now:
  "n_do_now (count_field i f c)
     = (if status f = DO_NOW_STATUS then n_do_now c + 1 else n_do_now c)"
  by (simp add: count_field_def Let_def status_defs)

lemma count_i_min_do_now:
  "i_min_do_now (count_field i f c)
     = (if status f = DO_NOW_STATUS \<and> i_min_do_now c = -1 then i else i_min_do_now c)"
  by (simp add: count_field_def Let_def status_defs)

lemma count_i_min_dark:
  "i_min_dark (count_field i f c)
     = (if status f = DO_NOW_STATUS \<and> shutter f = DARK_CODE \<and> i_min_dark c = -1 then i
        else i_min_dark c)"
  by (simp add: count_field_def Let_def status_defs)

lemma count_i_min_flat:
  "i_min_flat (count_field i f c)
     = (if status f = DO_NOW_STATUS \<and>
           (shutter f = DOME_FLAT_CODE \<or> shutter f = EVENING_FLAT_CODE \<or>
            shutter f = MORNING_FLAT_CODE) \<and> i_min_flat c = -1 then i
        else i_min_flat c)"
  by (simp add: count_field_def Let_def status_defs)

lemma scan_n_ready_must_do:
  "0 \<le> n_ready_must_do (scan_upto F n) \<and>
   (0 < n_ready_must_do (scan_upto F n) \<longleftrightarrow> (\<exists>i<n. ready_must_do (F i)))"
proof (induction n)
  case 0
  show ?case by (simp add: scan_upto_0 init_scan_def)
next
  case (Suc n)
  then show ?case
    by (auto simp add: scan_upto_Suc count_n_ready_must_do less_Suc_eq)
qed

lemma scan_n_late_must_do:
  "0 \<le> n_late_must_do (scan_upto F n) \<and>
   (0 < n_late_must_do (scan_upto F n) \<longleftrightarrow> (\<exists>i<n. late_must_do (F i)))"
proof (induction n)
  case 0
  show ?case by (simp add: scan_upto_0 init_scan_def)
next
  case (Suc n)
  then show ?case
    by (auto simp add: scan_upto_Suc count_n_late_must_do less_Suc_eq)
qed

lemma scan_n_do_now:
  "0 \<le> n_do_now (scan_upto F n) \<and>
   (0 < n_do_now (scan_upto F n) \<longleftrightarrow> (\<exists>i<n. status (F i) = DO_NOW_STATUS))"
proof (induction n)
  case 0
  show ?case by (simp add: scan_upto_0 init_scan_def)
next
  case (Suc n)
  then show ?case
    by (auto simp add: scan_upto_Suc count_n_do_now less_Suc_eq)
qed

lemma scan_i_min_do_now:
  "(i_min_do_now (scan_upto F n) = -1 \<and> (\<forall>i<n. status (F i) \<noteq> DO_NOW_STATUS)) \<or>
   (0 \<le> i_min_do_now (scan_upto F n) \<and> nat (i_min_do_now (scan_upto F n)) < n \<and>
    status (F (nat (i_min_do_now (scan_upto F n)))) = DO_NOW_STATUS)"
proof (induction n)
  case 0
  show ?case by (simp add: scan_upto_0 init_scan_def)
next
  case (Suc n)
  then show ?case
    by (auto simp add: scan_upto_Suc count_i_min_do_now less_Suc_eq)
qed

lemma scan_i_min_dark:
  "i_min_dark (scan_upto F n) = -1 \<or>
   (0 \<le> i_min_dark (scan_upto F n) \<and> nat (i_min_dark (scan_upto F n)) < n \<and>
    status (F (nat (i_min_dark (scan_upto F n)))) = DO_NOW_STATUS \<and>
    shutter (F (nat (i_min_dark (scan_upto F n)))) = DARK_CODE)"
proof (induction n)
  case 0
  show ?case by (simp add: scan_upto_0 init_scan_def)
next
  case (Suc n)
  then show ?case
    by (auto simp add: scan_upto_Suc count_i_min_dark less_Suc_eq)
qed

lemma scan_i_min_flat:
  "i_min_flat (scan_upto F n) = -1 \<or>
   (0 \<le> i_min_flat (scan_upto F n) \<and> nat (i_min_flat (scan_upto F n)) < n \<and>
    status (F (nat (i_min_flat (scan_upto F n)))) = DO_NOW_STATUS)"
proof (induction n)
  case 0
  show ?case by (simp add: scan_upto_0 init_scan_def)
next
  case (Suc n)
  then show ?case
    by (auto simp add: scan_upto_Suc count_i_min_flat less_Suc_eq)
qed

lemma scan_n_left_min_must_do:
  "n_left_min_must_do (scan_upto F n) \<le> 100000 \<and>
   (\<forall>i<n. ready_must_do (F i) \<longrightarrow>
      n_left_min_must_do (scan_upto F n) \<le> n_required (F i) - n_done (F i)) \<and>
   (n_left_min_must_do (scan_upto F n) = 100000 \<or>
    (\<exists>i<n. ready_must_do (F i) \<and>
       n_required (F i) - n_done (F i) = n_left_min_must_do (scan_upto F n)))"
proof (induction n)
  case 0
  show ?case by (simp add: scan_upto_0 init_scan_def)
next
  case (Suc n)
  show ?case
  proof (cases "ready_must_do (F n) \<and>
      n_required (F n) - n_done (F n) < n_left_min_must_do (scan_upto F n)")
    case True
    with Suc show ?thesis
      by (simp add: scan_upto_Suc count_n_left_min_must_do less_Suc_eq) force
  next
    case False
    with Suc show ?thesis
      by (simp add: scan_upto_Suc count_n_left_min_must_do less_Suc_eq) force
  qed
qed

subsection \<open>The first loop updates every field and counts it\<close>

lemma update_status_fst:
  "status (snd (update_field_status f jd bad_weather)) = fst (update_field_status f jd bad_weather)"
  by (simp add: update_field_status_def Let_def)

lemma update_survey_code:
  "survey_code (snd (update_field_status f jd bad_weather)) = survey_code f"
  by (simp add: update_field_status_def Let_def)

lemma update_shutter:
  "shutter (snd (update_field_status f jd bad_weather)) = shutter f"
  by (simp add: update_field_status_def Let_def)

lemma update_n_left:
  "n_required (snd (update_field_status f jd bad_weather)) = n_required f \<and>
   n_done (snd (update_field_status f jd bad_weather)) = n_done f"
  by (simp add: update_field_status_def Let_def)

lemma fold_list_update_length:
  "length (fold (\<lambda>i s. s[i := g i]) is cur) = length cur"
  by (induction "is" arbitrary: cur) simp_all

lemma fold_list_update_nth:
  "j < length cur \<Longrightarrow>
   fold (\<lambda>i s. s[i := g i]) is cur ! j = (if j \<in> set is then g j else cur ! j)"
proof (induction "is" arbitrary: cur)
  case Nil
  then show ?case by simp
next
  case (Cons i "is")
  then show ?case by (auto simp add: nth_list_update)
qed

lemma update_loop_fold:
  assumes "distinct is" and "\<forall>i\<in>set is. i < length cur \<and> cur ! i = sequence ! i"
  shows "update_loop is jd bad_weather (cur, c)
           = Inr (fold (\<lambda>i s. s[i := updated sequence jd bad_weather i]) is cur,
                  fold (\<lambda>i. count_field (int i) (updated sequence jd bad_weather i)) is c)"
  using assms
proof (induction "is" arbitrary: cur c)
  case Nil
  then show ?case by simp
next
  case (Cons i "is")
  have i: "i < length cur" "cur ! i = sequence ! i"
    using Cons.prems by simp_all
  have rest: "\<forall>j\<in>set is. j < length (cur[i := updated sequence jd bad_weather i]) \<and>
      cur[i := updated sequence jd bad_weather i] ! j = sequence ! j"
    using Cons.prems by (auto simp add: nth_list_update)
  have d: "distinct is" using Cons.prems by simp
  show ?case
    using i Cons.IH [OF d rest]
    by (simp add: field_at_def updated_def Let_def)
qed

lemma update_loop_all:
  assumes "n \<le> length sequence"
  shows "\<exists>sequence1.
           update_loop [0..<n] jd bad_weather (sequence, init_scan)
             = Inr (sequence1, scan_upto (updated sequence jd bad_weather) n) \<and>
           length sequence1 = length sequence \<and>
           (\<forall>j<n. sequence1 ! j = updated sequence jd bad_weather j) \<and>
           (\<forall>j. n \<le> j \<longrightarrow> j < length sequence \<longrightarrow> sequence1 ! j = sequence ! j)"
proof -
  have "\<forall>i\<in>set [0..<n]. i < length sequence \<and> sequence ! i = sequence ! i"
    using assms by simp
  then have "update_loop [0..<n] jd bad_weather (sequence, init_scan)
      = Inr (fold (\<lambda>i s. s[i := updated sequence jd bad_weather i]) [0..<n] sequence,
             scan_upto (updated sequence jd bad_weather) n)"
    unfolding scan_upto_def by (intro update_loop_fold) simp_all
  then show ?thesis
    using assms by (simp add: fold_list_update_length fold_list_update_nth)
qed

lemma set_selection_code_in_range:
  assumes "0 \<le> x" "nat x < length sequence1"
  shows "set_selection_code sequence1 x code
           = Inr (sequence1[nat x := (sequence1 ! nat x)\<lparr>selection_code := code\<rparr>])"
  using assms by (simp add: set_selection_code_def field_at_def)

subsection \<open>The search of tier 1\<close>

lemma best_upto_0: "best_upto s n_min 0 = (-1, 10000)"
  by (simp add: best_upto_def)

lemma best_upto_Suc: "best_upto s n_min (Suc n) = best_step s n_min n (best_upto s n_min n)"
  by (simp add: best_upto_def)

lemma ready_must_do_loop_fold:
  "\<forall>i\<in>set is. i < length s \<Longrightarrow>
   ready_must_do_loop is s n_min st = Inr (fold (best_step s n_min) is st)"
proof (induction "is" arbitrary: st)
  case Nil
  then show ?case by simp
next
  case (Cons i "is")
  obtain i_min t where st: "st = (i_min, t)" by (cases st)
  have i: "i < length s" using Cons.prems by simp
  have rest: "\<forall>j\<in>set is. j < length s" using Cons.prems by simp
  show ?case
    using i Cons.IH [OF rest]
    by (simp add: st field_at_def best_step_def must_do_eligible_def)
qed

lemma best_step_new:
  assumes "best_none s n_min n st \<or> best_found s n_min n st"
    and "must_do_eligible n_min (s ! n)" and "time_left (s ! n) < snd st"
  shows "best_found s n_min (Suc n) (int n, time_left (s ! n))"
proof -
  have bound: "snd st \<le> 10000"
    using assms(1) by (auto simp add: best_none_def best_found_def)
  have least: "\<forall>j<n. must_do_eligible n_min (s ! j) \<longrightarrow> snd st \<le> time_left (s ! j)"
    using assms(1) by (auto simp add: best_none_def best_found_def)
  have "\<forall>j<n. must_do_eligible n_min (s ! j) \<longrightarrow> time_left (s ! n) < time_left (s ! j)"
    using least assms(3) by fastforce
  then show ?thesis
    using assms(2,3) bound by (auto simp add: best_found_def less_Suc_eq)
qed

lemma best_step_none:
  assumes "best_none s n_min n st"
    and "\<not> (must_do_eligible n_min (s ! n) \<and> time_left (s ! n) < snd st)"
  shows "best_none s n_min (Suc n) st"
  using assms by (auto simp add: best_none_def less_Suc_eq)

lemma best_step_found:
  assumes "best_found s n_min n st"
    and "\<not> (must_do_eligible n_min (s ! n) \<and> time_left (s ! n) < snd st)"
  shows "best_found s n_min (Suc n) st"
proof -
  have "\<forall>j<Suc n. must_do_eligible n_min (s ! j) \<longrightarrow> snd st \<le> time_left (s ! j)"
    using assms by (auto simp add: best_found_def less_Suc_eq)
  moreover have "nat (fst st) < Suc n"
    using assms(1) by (simp add: best_found_def)
  ultimately show ?thesis
    using assms(1) unfolding best_found_def by blast
qed

lemma best_upto_invariant:
  "best_none s n_min n (best_upto s n_min n) \<or> best_found s n_min n (best_upto s n_min n)"
proof (induction n)
  case 0
  show ?case by (simp add: best_upto_0 best_none_def)
next
  case (Suc n)
  show ?case
  proof (cases "must_do_eligible n_min (s ! n) \<and> time_left (s ! n) < snd (best_upto s n_min n)")
    case True
    then have "best_upto s n_min (Suc n) = (int n, time_left (s ! n))"
      by (simp add: best_upto_Suc best_step_def)
    with best_step_new [OF Suc] True show ?thesis by simp
  next
    case False
    then have "best_upto s n_min (Suc n) = best_upto s n_min n"
      unfolding best_upto_Suc best_step_def by (rule if_not_P)
    with Suc best_step_none [OF _ False] best_step_found [OF _ False] show ?thesis
      by auto
  qed
qed

lemma eligible_iff_candidate:
  assumes "j < n"
  shows "must_do_eligible (n_left_min_must_do (scan_upto F n)) (F j)
           \<longleftrightarrow> must_do_candidate F n (F j)"
proof
  assume e: "must_do_eligible (n_left_min_must_do (scan_upto F n)) (F j)"
  then have r: "ready_must_do (F j)"
    by (simp add: must_do_eligible_def ready_must_do_def)
  show "must_do_candidate F n (F j)"
    using e r scan_n_left_min_must_do [of F n]
    by (auto simp add: must_do_eligible_def must_do_candidate_def visits_left_def)
next
  assume c: "must_do_candidate F n (F j)"
  then have r: "ready_must_do (F j)"
    by (simp add: must_do_candidate_def)
  show "must_do_eligible (n_left_min_must_do (scan_upto F n)) (F j)"
  proof (cases "n_required (F j) = 6")
    case True
    with r show ?thesis by (simp add: must_do_eligible_def ready_must_do_def)
  next
    case False
    with c have le: "visits_left (F j) \<le> 100000"
      and least: "\<forall>i<n. ready_must_do (F i) \<longrightarrow> visits_left (F j) \<le> visits_left (F i)"
      by (simp_all add: must_do_candidate_def)
    have lower: "n_left_min_must_do (scan_upto F n) \<le> visits_left (F j)"
      using scan_n_left_min_must_do [of F n] assms r by (simp add: visits_left_def)
    have upper: "visits_left (F j) \<le> n_left_min_must_do (scan_upto F n)"
      using scan_n_left_min_must_do [of F n] le least by (auto simp add: visits_left_def)
    from lower upper r show ?thesis
      by (simp add: must_do_eligible_def ready_must_do_def visits_left_def)
  qed
qed

section \<open>Properties of the selector\<close>

text \<open>
  C2, evaluated where the shortening fails. A single must-do sky field sets at the very
  Julian date of the call, with three visits of one hour to go: it is TooLate and
  \<open>time_up\<close> is 0. The shortened interval would be 0, which is \<open>MIN_INTERVAL\<close>; the
  strict test of \<open>shorten_interval\<close> fails, \<open>doable\<close> is cleared and the status becomes
  NotDoable. The selector still returns index 0, stamped \<open>LEAST_TIME_LATE_MUST_DO\<close>:
  the field is neither marked Ready, nor does the selector fall through to the later
  tiers (which would return \<open>-1\<close> here).
\<close>

theorem late_must_do_returned_not_doable:
  "get_next_field [setting_must_do, spare_slot] 1 (-1) 100 0
     = Inr (0, [setting_must_do\<lparr>time_required := 3, time_up := 0, time_left := -3, doable := 0,
                   status := NOT_DOABLE_STATUS,
                   selection_code := LEAST_TIME_LATE_MUST_DO\<rparr>,
                spare_slot])"
  by (simp add: selector_defs setting_must_do_def spare_slot_def status_defs shutter_defs
      survey_defs)

text \<open>
  C10, evaluated where the scan of the late must-do fields runs. With one field in an
  array of capacity one the scan reads the entry at index 1, outside the array. With a
  capacity of two, the entry at index \<open>num_fields = 1\<close> is read and decides the result:
  a stale late must-do entry there is chosen, shortened and returned as index 1.
\<close>

theorem late_scan_reads_past_end:
  "get_next_field [setting_must_do] 1 (-1) 100 0 = Inl (OutOfBounds 1) \<and>
   get_next_field [setting_must_do, stale_slot] 1 (-1) 100 0
     = Inr (1, [setting_must_do\<lparr>time_required := 3, time_up := 0, time_left := -3,
                   status := TOO_LATE_STATUS\<rparr>,
                stale_slot\<lparr>doable := 0, status := NOT_DOABLE_STATUS,
                   selection_code := LEAST_TIME_LATE_MUST_DO\<rparr>])"
  by (simp add: selector_defs setting_must_do_def stale_slot_def status_defs shutter_defs
      survey_defs)

text \<open>
  C1, as stated, fails: with a dark that is DoNow at index 0 and a ready must-do sky field
  at index 1, the selector returns index 1, whose status is Ready.
\<close>

theorem must_do_preempts_dark:
  "status (snd (update_field_status dark_field 100 0)) = DO_NOW_STATUS \<and>
   shutter dark_field = DARK_CODE \<and>
   get_next_field [dark_field, must_do_field] 2 (-1) 100 0
     = Inr (1, [dark_field\<lparr>status := DO_NOW_STATUS\<rparr>,
                must_do_field\<lparr>time_required := 3, time_up := 24, time_left := 21,
                   status := READY_STATUS,
                   selection_code := LEAST_TIME_READY_MUST_DO\<rparr>]) \<and>
   READY_STATUS \<noteq> DO_NOW_STATUS"
  by (simp add: selector_defs dark_field_def must_do_field_def status_defs shutter_defs survey_defs)

text \<open>
  C1, amended. When, after the per-field status update, no must-do field is Ready or
  TooLate and at least one field is DoNow and a Dark or a DomeFlat, the selector returns
  the index of a field whose status is DoNow. (The two must-do tiers come before the
  do-now tier.)
\<close>

theorem do_now_field_selected:
  "nat num_fields \<le> length sequence \<and>
   (\<forall>k < nat num_fields. survey_code (sequence ! k) = MUSTDO_SURVEY_CODE \<longrightarrow>
      fst (update_field_status (sequence ! k) jd bad_weather) \<noteq> READY_STATUS \<and>
      fst (update_field_status (sequence ! k) jd bad_weather) \<noteq> TOO_LATE_STATUS) \<and>
   (\<exists>k < nat num_fields.
      fst (update_field_status (sequence ! k) jd bad_weather) = DO_NOW_STATUS \<and>
      (shutter (sequence ! k) = DARK_CODE \<or> shutter (sequence ! k) = DOME_FLAT_CODE)) \<longrightarrow>
   (\<exists>i sequence'.
      get_next_field sequence num_fields i_prev jd bad_weather = Inr (i, sequence') \<and>
      0 \<le> i \<and> i < num_fields \<and>
      fst (update_field_status (sequence ! nat i) jd bad_weather) = DO_NOW_STATUS \<and>
      status (sequence' ! nat i) = DO_NOW_STATUS)"
proof (intro impI, elim conjE)
  let ?n = "nat num_fields"
  let ?F = "updated sequence jd bad_weather"
  let ?c = "scan_upto ?F ?n"
  assume n: "?n \<le> length sequence"
    and must: "\<forall>k < ?n. survey_code (sequence ! k) = MUSTDO_SURVEY_CODE \<longrightarrow>
      fst (update_field_status (sequence ! k) jd bad_weather) \<noteq> READY_STATUS \<and>
      fst (update_field_status (sequence ! k) jd bad_weather) \<noteq> TOO_LATE_STATUS"
    and now: "\<exists>k < ?n.
      fst (update_field_status (sequence ! k) jd bad_weather) = DO_NOW_STATUS \<and>
      (shutter (sequence ! k) = DARK_CODE \<or> shutter (sequence ! k) = DOME_FLAT_CODE)"
  obtain sequence1 where loop:
      "update_loop [0..<?n] jd bad_weather (sequence, init_scan) = Inr (sequence1, ?c)"
    and len: "length sequence1 = length sequence"
    and upd: "\<forall>j<?n. sequence1 ! j = ?F j"
    using update_loop_all [OF n] by blast
  have no_ready: "\<not> 0 < n_ready_must_do ?c"
    using must scan_n_ready_must_do [of ?F ?n]
    by (auto simp add: ready_must_do_def updated_def update_status_fst update_survey_code)
  have no_late: "\<not> 0 < n_late_must_do ?c"
    using must scan_n_late_must_do [of ?F ?n]
    by (auto simp add: late_must_do_def updated_def update_status_fst update_survey_code)
  have some_now: "0 < n_do_now ?c"
    using now scan_n_do_now [of ?F ?n]
    by (auto simp add: updated_def update_status_fst)
  have first_now: "0 \<le> i_min_do_now ?c \<and> nat (i_min_do_now ?c) < ?n \<and>
      status (?F (nat (i_min_do_now ?c))) = DO_NOW_STATUS"
    using some_now scan_n_do_now [of ?F ?n] scan_i_min_do_now [of ?F ?n] by auto
  define x where "x = (if 0 \<le> i_min_flat ?c then i_min_flat ?c
                        else if 0 \<le> i_min_dark ?c then i_min_dark ?c else i_min_do_now ?c)"
  define code where "code = (if 0 \<le> i_min_flat ?c then FIRST_DO_NOW_FLAT
                        else if 0 \<le> i_min_dark ?c then FIRST_DO_NOW_DARK else FIRST_DO_NOW)"
  have x: "0 \<le> x \<and> nat x < ?n \<and> status (?F (nat x)) = DO_NOW_STATUS"
    using first_now scan_i_min_dark [of ?F ?n] scan_i_min_flat [of ?F ?n]
    unfolding x_def by auto
  then have x_len: "0 \<le> x" "nat x < length sequence1"
    using n len by linarith+
  have sel: "select_do_now sequence1 ?c
      = Inr (x, sequence1[nat x := (sequence1 ! nat x)\<lparr>selection_code := code\<rparr>])"
  proof -
    consider (flat) "0 \<le> i_min_flat ?c"
      | (dark) "\<not> 0 \<le> i_min_flat ?c" "0 \<le> i_min_dark ?c"
      | (first) "\<not> 0 \<le> i_min_flat ?c" "\<not> 0 \<le> i_min_dark ?c"
      by blast
    then show ?thesis
    proof cases
      case flat
      then have "x = i_min_flat ?c" "code = FIRST_DO_NOW_FLAT"
        by (simp_all add: x_def code_def)
      with flat set_selection_code_in_range [OF x_len, of code] show ?thesis
        by (simp add: select_do_now_def)
    next
      case dark
      then have "x = i_min_dark ?c" "code = FIRST_DO_NOW_DARK"
        by (simp_all add: x_def code_def)
      with dark set_selection_code_in_range [OF x_len, of code] show ?thesis
        by (simp add: select_do_now_def)
    next
      case first
      then have "x = i_min_do_now ?c" "code = FIRST_DO_NOW"
        by (simp_all add: x_def code_def)
      with first set_selection_code_in_range [OF x_len, of code] show ?thesis
        by (simp add: select_do_now_def)
    qed
  qed
  have result: "get_next_field sequence num_fields i_prev jd bad_weather
      = Inr (x, sequence1[nat x := (sequence1 ! nat x)\<lparr>selection_code := code\<rparr>])"
    unfolding get_next_field_def using loop no_ready no_late some_now sel by simp
  have "status (sequence1[nat x := (sequence1 ! nat x)\<lparr>selection_code := code\<rparr>] ! nat x)
      = DO_NOW_STATUS"
    using x x_len upd by simp
  moreover have "fst (update_field_status (sequence ! nat x) jd bad_weather) = DO_NOW_STATUS"
    using x by (simp add: updated_def update_status_fst)
  moreover have "x < num_fields" using x by linarith
  ultimately show "\<exists>i sequence'.
      get_next_field sequence num_fields i_prev jd bad_weather = Inr (i, sequence') \<and>
      0 \<le> i \<and> i < num_fields \<and>
      fst (update_field_status (sequence ! nat i) jd bad_weather) = DO_NOW_STATUS \<and>
      status (sequence' ! nat i) = DO_NOW_STATUS"
    using result x by blast
qed

theorem do_now_field_selected_witness:
  "nat 2 \<le> length [sky_field, dark_field] \<and>
   survey_code ([sky_field, dark_field] ! 0) \<noteq> MUSTDO_SURVEY_CODE \<and>
   survey_code ([sky_field, dark_field] ! 1) \<noteq> MUSTDO_SURVEY_CODE \<and>
   (1::nat) < nat 2 \<and>
   fst (update_field_status ([sky_field, dark_field] ! 1) 100 0) = DO_NOW_STATUS \<and>
   shutter ([sky_field, dark_field] ! 1) = DARK_CODE \<and>
   get_next_field [sky_field, dark_field] 2 (-1) 100 0
     = Inr (1, [sky_field\<lparr>time_required := 2, time_up := 24, time_left := 22,
                   status := READY_STATUS\<rparr>,
                dark_field\<lparr>status := DO_NOW_STATUS, selection_code := FIRST_DO_NOW_DARK\<rparr>])"
  using do_now_field_selected [of 2 "[sky_field, dark_field]" 100 0 "-1"]
  by (simp add: selector_defs sky_field_def dark_field_def status_defs shutter_defs survey_defs)

text \<open>
  C3, as stated, fails: of two ready must-do fields, the one at index 0 has the least
  \<open>time_left\<close> (22 h against 47 h) but two visits left; the selector returns index 1,
  which has one visit left.
\<close>

theorem fewer_visits_beats_less_time:
  "get_next_field [must_do_two_left, must_do_one_left] 2 (-1) 100 0
     = Inr (1, [must_do_two_left\<lparr>time_required := 2, time_up := 24, time_left := 22,
                   status := READY_STATUS\<rparr>,
                must_do_one_left\<lparr>time_required := 1, time_up := 48, time_left := 47,
                   status := READY_STATUS,
                   selection_code := LEAST_TIME_READY_MUST_DO\<rparr>]) \<and>
   survey_code must_do_two_left = MUSTDO_SURVEY_CODE \<and> (22::real) < 47"
  by (simp add: selector_defs must_do_two_left_def must_do_one_left_def status_defs shutter_defs
      survey_defs)

text \<open>
  C3, amended. When some candidate of tier 1 has \<open>time_left\<close> below 10000 h, the
  selector returns a ready must-do field chosen first by the least number of visits left
  (fields with \<open>n_required = 6\<close> always compete), then by the least \<open>time_left\<close>, then
  by the lowest index; it stamps it \<open>LEAST_TIME_READY_MUST_DO\<close>.
\<close>

theorem ready_must_do_selected:
  "nat num_fields \<le> length sequence \<and>
   (\<exists>k < nat num_fields.
      must_do_candidate (updated sequence jd bad_weather) (nat num_fields)
        (updated sequence jd bad_weather k) \<and>
      time_left (updated sequence jd bad_weather k) < 10000) \<longrightarrow>
   (\<exists>i sequence'.
      get_next_field sequence num_fields i_prev jd bad_weather = Inr (int i, sequence') \<and>
      i < nat num_fields \<and>
      must_do_candidate (updated sequence jd bad_weather) (nat num_fields)
        (updated sequence jd bad_weather i) \<and>
      (\<forall>j < nat num_fields.
         must_do_candidate (updated sequence jd bad_weather) (nat num_fields)
           (updated sequence jd bad_weather j) \<longrightarrow>
         time_left (updated sequence jd bad_weather i)
           \<le> time_left (updated sequence jd bad_weather j)) \<and>
      (\<forall>j < i.
         must_do_candidate (updated sequence jd bad_weather) (nat num_fields)
           (updated sequence jd bad_weather j) \<longrightarrow>
         time_left (updated sequence jd bad_weather i)
           < time_left (updated sequence jd bad_weather j)) \<and>
      sequence' ! i
        = (updated sequence jd bad_weather i)\<lparr>selection_code := LEAST_TIME_READY_MUST_DO\<rparr>)"
proof (intro impI, elim conjE exE)
  let ?n = "nat num_fields"
  let ?F = "updated sequence jd bad_weather"
  let ?c = "scan_upto ?F ?n"
  let ?m = "n_left_min_must_do ?c"
  fix k
  assume n: "?n \<le> length sequence"
    and k: "k < ?n" "must_do_candidate ?F ?n (?F k)" "time_left (?F k) < 10000"
  obtain sequence1 where loop:
      "update_loop [0..<?n] jd bad_weather (sequence, init_scan) = Inr (sequence1, ?c)"
    and len: "length sequence1 = length sequence"
    and upd: "\<forall>j<?n. sequence1 ! j = ?F j"
    using update_loop_all [OF n] by blast
  have some_ready: "0 < n_ready_must_do ?c"
    using k scan_n_ready_must_do [of ?F ?n] by (auto simp add: must_do_candidate_def)
  have eligible: "\<forall>j<?n. must_do_eligible ?m (sequence1 ! j) \<longleftrightarrow> must_do_candidate ?F ?n (?F j)"
    using upd eligible_iff_candidate [of _ ?n ?F] by simp
  have in_range: "\<forall>i\<in>set [0..<?n]. i < length sequence1"
    using n len by simp
  have search: "ready_must_do_loop [0..<?n] sequence1 ?m (-1, 10000)
      = Inr (best_upto sequence1 ?m ?n)"
    using ready_must_do_loop_fold [OF in_range] by (simp add: best_upto_def)
  have "\<not> best_none sequence1 ?m ?n (best_upto sequence1 ?m ?n)"
    using k eligible upd unfolding best_none_def by fastforce
  then have found: "best_found sequence1 ?m ?n (best_upto sequence1 ?m ?n)"
    using best_upto_invariant [of sequence1 ?m ?n] by blast
  obtain i_min t where best: "best_upto sequence1 ?m ?n = (i_min, t)"
    by (cases "best_upto sequence1 ?m ?n")
  have f: "0 \<le> i_min" "nat i_min < ?n" "must_do_eligible ?m (sequence1 ! nat i_min)"
    "t = time_left (sequence1 ! nat i_min)"
    "\<forall>j<?n. must_do_eligible ?m (sequence1 ! j) \<longrightarrow> t \<le> time_left (sequence1 ! j)"
    "\<forall>j<nat i_min. must_do_eligible ?m (sequence1 ! j) \<longrightarrow> t < time_left (sequence1 ! j)"
    using found unfolding best best_found_def fst_conv snd_conv by blast+
  define i where "i = nat i_min"
  note g = f(2-6) [folded i_def]
  have i: "i_min = int i" "i < ?n"
    using f(1) g(1) by (simp_all add: i_def)
  have i_len: "i < length sequence1"
    using i n len by linarith
  have t: "t = time_left (?F i)"
    using g(3) upd i(2) by simp
  have cand: "must_do_candidate ?F ?n (?F i)"
    using g(2) eligible i(2) by blast
  have least: "\<forall>j<?n. must_do_candidate ?F ?n (?F j) \<longrightarrow> time_left (?F i) \<le> time_left (?F j)"
  proof (intro allI impI)
    fix j
    assume j: "j < ?n" and c: "must_do_candidate ?F ?n (?F j)"
    have "must_do_eligible ?m (sequence1 ! j)"
      using eligible j c by blast
    then have "t \<le> time_left (sequence1 ! j)"
      using g(4) j by blast
    then show "time_left (?F i) \<le> time_left (?F j)"
      using t upd j by simp
  qed
  have first: "\<forall>j<i. must_do_candidate ?F ?n (?F j) \<longrightarrow> time_left (?F i) < time_left (?F j)"
  proof (intro allI impI)
    fix j
    assume j: "j < i" and c: "must_do_candidate ?F ?n (?F j)"
    then have jn: "j < ?n" using i(2) by simp
    have "must_do_eligible ?m (sequence1 ! j)"
      using eligible jn c by blast
    then have "t < time_left (sequence1 ! j)"
      using g(5) j by blast
    then show "time_left (?F i) < time_left (?F j)"
      using t upd jn by simp
  qed
  have stamp: "set_selection_code sequence1 i_min LEAST_TIME_READY_MUST_DO
      = Inr (sequence1[i := (sequence1 ! i)\<lparr>selection_code := LEAST_TIME_READY_MUST_DO\<rparr>])"
    using i i_len by (simp add: set_selection_code_def field_at_def)
  have "select_ready_must_do sequence1 num_fields ?c
      = Inr (int i, sequence1[i := (sequence1 ! i)\<lparr>selection_code := LEAST_TIME_READY_MUST_DO\<rparr>])"
    using search stamp i(1) by (simp add: select_ready_must_do_def best)
  then have result: "get_next_field sequence num_fields i_prev jd bad_weather
      = Inr (int i, sequence1[i := (sequence1 ! i)\<lparr>selection_code := LEAST_TIME_READY_MUST_DO\<rparr>])"
    unfolding get_next_field_def using loop some_ready by simp
  have "sequence1[i := (sequence1 ! i)\<lparr>selection_code := LEAST_TIME_READY_MUST_DO\<rparr>] ! i
      = (?F i)\<lparr>selection_code := LEAST_TIME_READY_MUST_DO\<rparr>"
    using i_len upd i(2) by simp
  with result i(2) cand least first show "\<exists>i sequence'.
      get_next_field sequence num_fields i_prev jd bad_weather = Inr (int i, sequence') \<and>
      i < ?n \<and> must_do_candidate ?F ?n (?F i) \<and>
      (\<forall>j < ?n. must_do_candidate ?F ?n (?F j) \<longrightarrow> time_left (?F i) \<le> time_left (?F j)) \<and>
      (\<forall>j < i. must_do_candidate ?F ?n (?F j) \<longrightarrow> time_left (?F i) < time_left (?F j)) \<and>
      sequence' ! i = (?F i)\<lparr>selection_code := LEAST_TIME_READY_MUST_DO\<rparr>"
    by blast
qed

theorem ready_must_do_selected_witness:
  "nat 2 \<le> length [must_do_two_left, must_do_one_left] \<and> (1::nat) < nat 2 \<and>
   must_do_candidate (updated [must_do_two_left, must_do_one_left] 100 0) (nat 2)
     (updated [must_do_two_left, must_do_one_left] 100 0 1) \<and>
   time_left (updated [must_do_two_left, must_do_one_left] 100 0 1) < 10000 \<and>
   get_next_field [must_do_two_left, must_do_one_left] 2 (-1) 100 0
     = Inr (1, [must_do_two_left\<lparr>time_required := 2, time_up := 24, time_left := 22,
                   status := READY_STATUS\<rparr>,
                must_do_one_left\<lparr>time_required := 1, time_up := 48, time_left := 47,
                   status := READY_STATUS,
                   selection_code := LEAST_TIME_READY_MUST_DO\<rparr>])"
  using ready_must_do_selected [of 2 "[must_do_two_left, must_do_one_left]" 100 0 "-1"]
  by (simp add: selector_defs must_do_candidate_def ready_must_do_def visits_left_def
      updated_def must_do_two_left_def must_do_one_left_def status_defs shutter_defs survey_defs
      less_Suc_eq numeral_2_eq_2)

end
